theory Spec2Isabelle
  imports Main
begin

section \<open>Data model of the S3 output plugin (s3\_output.go)\<close>

text \<open>
  Byte sequences (Go's \<^verbatim>\<open>[]byte\<close> and the contents of a \<^verbatim>\<open>bytes.Buffer\<close>) are
  lists of 8-bit characters.
\<close>

type_synonym bytes = string

text \<open>\<^verbatim>\<open>type S3OutputConfig struct\<close>, field by field.\<close>

record S3OutputConfig =
  SecretKey :: string
  AccessKey :: string
  Region :: string
  Bucket :: string
  Prefix :: string
  TickerInterval :: nat
  Compression :: bool
  BufferPath :: string
  BufferChunkLimit :: int

text \<open>
  \<^verbatim>\<open>type S3Output struct\<close>. The S3 client and bucket handles are external; what the remote
  store answers to a put is an input of \<open>Upload\<close> below.
\<close>

record S3Output =
  config :: S3OutputConfig
  bufferFilePath :: string

text \<open>The errors the plugin's functions return, one per failing call of the source.\<close>

datatype error =
  AuthError
  | RegionNotFound
  | MkdirAllError
  | ChdirError
  | CreateError
  | OpenFileError
  | WriteError
  | OpenError
  | CopyError
  | NothingToUpload
  | PutError
  | RemoveError

text \<open>
  What the plugin does to the outside, in order: the messages it logs through the output
  runner, the put it sends to the bucket (key, body, content type), the removal of the
  spool file. \<open>SaveToDiskCall n\<close> records that \<open>SaveToDisk\<close> was entered with \<open>n\<close>
  buffered bytes.
\<close>

datatype event =
  LogMessage string
  | SaveToDiskCall nat
  | BucketPut string bytes string
  | OsRemove

text \<open>
  The state the functions work on: the memory buffer that \<open>Run\<close> allocates and passes by
  pointer, the staging directory \<open>BufferPath\<close> (present or not), the spool file at
  \<open>bufferFilePath\<close> (\<open>None\<close> when it does not exist, its contents otherwise), and the
  events so far. The working directory is not part of the state: \<open>BufferPath\<close> is taken
  to be absolute, so that the \<^verbatim>\<open>os.Chdir\<close> of \<open>SaveToDisk\<close> does not change which file
  \<open>bufferFilePath\<close> names.
\<close>

record world =
  memBuffer :: bytes
  stagingDir :: bool
  spoolFile :: "bytes option"
  events :: "event list"

definition spoolBytes :: "world \<Rightarrow> bytes" where
  "spoolBytes w = (case spoolFile w of None \<Rightarrow> [] | Some c \<Rightarrow> c)"

definition emit :: "event \<Rightarrow> world \<Rightarrow> world" where
  "emit e w = w\<lparr>events := events w @ [e]\<rparr>"

text \<open>
  What the system calls of one \<open>SaveToDisk\<close> answer, chosen by the environment.
  \<open>statDirFails\<close> and \<open>statFileFails\<close>: \<^verbatim>\<open>os.Stat\<close> of the directory, of the file,
  returns an error other than "does not exist" (no permission, a path component that is no
  directory), so that \<^verbatim>\<open>os.IsNotExist\<close> is false whatever is there; without such an
  error \<^verbatim>\<open>os.Stat\<close> reports a path absent exactly when it is absent. The next four:
  \<^verbatim>\<open>os.MkdirAll\<close>, \<^verbatim>\<open>os.Chdir\<close>, \<^verbatim>\<open>os.Create\<close> and \<^verbatim>\<open>os.OpenFile\<close> fail; these leave
  the file system as it was, and changing into a directory or opening a file that is not
  there fails in any case. \<open>writeFails\<close>: \<open>None\<close> when \<^verbatim>\<open>f.Write\<close> succeeds, \<open>Some n\<close>
  when it returns an error after \<open>n\<close> bytes of the buffer have reached the file; \<open>n\<close> is
  the byte count that \<^verbatim>\<open>f.Write\<close> returns and line 180 discards.
\<close>

record disk_faults =
  statDirFails :: bool
  mkdirAllFails :: bool
  chdirFails :: bool
  statFileFails :: bool
  createFails :: bool
  openFileFails :: bool
  writeFails :: "nat option"

section \<open>SaveToDisk and WriteToBuffer\<close>

text \<open>
  \<^verbatim>\<open>func (so *S3Output) SaveToDisk(buffer *bytes.Buffer, or OutputRunner) error\<close>:
  stat and create the directory, change into it, stat and create the file, open it for
  append, write the buffer, and only then reset the buffer. Every failing call returns
  its error at once.
\<close>

definition SaveToDisk :: "S3Output \<Rightarrow> disk_faults \<Rightarrow> world \<Rightarrow> error option \<times> world" where
  "SaveToDisk so f w =
    (let w0 = emit (SaveToDiskCall (length (memBuffer w))) w;
         dirNotExist = (\<not> statDirFails f \<and> \<not> stagingDir w0) in
     if dirNotExist \<and> mkdirAllFails f then (Some MkdirAllError, w0)
     else
       let w1 = (if dirNotExist then w0\<lparr>stagingDir := True\<rparr> else w0) in
       if chdirFails f \<or> \<not> stagingDir w1 then (Some ChdirError, w1)
       else
         let fileNotExist = (\<not> statFileFails f \<and> spoolFile w1 = None);
             w2 = (if fileNotExist
                   then emit (LogMessage (''Creating buffer file: '' @ bufferFilePath so)) w1
                   else w1) in
         if fileNotExist \<and> createFails f then (Some CreateError, w2)
         else
           let w3 = (if fileNotExist then w2\<lparr>spoolFile := Some []\<rparr> else w2) in
           if openFileFails f then (Some OpenFileError, w3)
           else
             (case spoolFile w3 of
                None \<Rightarrow> (Some OpenFileError, w3)
              | Some old \<Rightarrow>
                  (case writeFails f of
                     Some n \<Rightarrow>
                       (Some WriteError, w3\<lparr>spoolFile := Some (old @ take n (memBuffer w3))\<rparr>)
                   | None \<Rightarrow>
                       (None, w3\<lparr>spoolFile := Some (old @ memBuffer w3), memBuffer := []\<rparr>))))"

text \<open>
  \<^verbatim>\<open>func (so *S3Output) WriteToBuffer(buffer *bytes.Buffer, outBytes []byte, or OutputRunner)\<close>.
  \<^verbatim>\<open>bytes.Buffer.Write\<close> always returns a nil error, so the first early return is never
  taken.
\<close>

definition WriteToBuffer :: "S3Output \<Rightarrow> bytes \<Rightarrow> disk_faults \<Rightarrow> world \<Rightarrow> error option \<times> world" where
  "WriteToBuffer so outBytes f w =
    (let w1 = w\<lparr>memBuffer := memBuffer w @ outBytes\<rparr> in
     if int (length (memBuffer w1)) > BufferChunkLimit (config so)
     then SaveToDisk so f w1
     else (None, w1))"

text \<open>The sizes with which \<open>SaveToDisk\<close> was entered, read off an event list.\<close>

fun spillSizes :: "event list \<Rightarrow> nat list" where
  "spillSizes [] = []"
| "spillSizes (SaveToDiskCall n # es) = n # spillSizes es"
| "spillSizes (e # es) = spillSizes es"

text \<open>
  Some step of \<open>SaveToDisk\<close> that is reached fails: with the directory absent its
  creation (or, when \<^verbatim>\<open>os.Stat\<close> hides that it is absent, the change into it), the
  change into the directory, with the file absent its creation (or, when \<^verbatim>\<open>os.Stat\<close>
  hides that it is absent, its opening), the opening, or the write.
\<close>

definition someStepFails :: "disk_faults \<Rightarrow> world \<Rightarrow> bool" where
  "someStepFails f w =
    ((\<not> stagingDir w \<and> (statDirFails f \<or> mkdirAllFails f)) \<or> chdirFails f
      \<or> (spoolFile w = None \<and> (statFileFails f \<or> createFails f))
      \<or> openFileFails f \<or> writeFails f \<noteq> None)"


section \<open>Strings: the spool path of Init\<close>

text \<open>
  \<^verbatim>\<open>strings.Split(s, "/")\<close> and \<^verbatim>\<open>strings.Join(parts, "_")\<close> of the Go library, for
  a separator of one character: the pieces between the separators, in order (a string
  without separator is its own single piece), and the pieces glued with the separator.
\<close>

fun Split :: "string \<Rightarrow> char \<Rightarrow> string list" where
  "Split [] sep = [[]]"
| "Split (c # cs) sep =
     (if c = sep then [] # Split cs sep
      else (case Split cs sep of [] \<Rightarrow> [[c]] | p # ps \<Rightarrow> (c # p) # ps))"

fun Join :: "string list \<Rightarrow> string \<Rightarrow> string" where
  "Join [] sep = []"
| "Join [p] sep = p"
| "Join (p # q # ps) sep = p @ sep @ Join (q # ps) sep"

text \<open>Lines 73 to 75 of \<open>Init\<close>: the spool file's path.\<close>

definition spoolPath :: "S3OutputConfig \<Rightarrow> string" where
  "spoolPath cfg =
    (let prefixList = Split (Prefix cfg) (CHR ''/'');
         bufferFileName = Bucket cfg @ Join prefixList ''_''
     in BufferPath cfg @ ''/'' @ bufferFileName)"

text \<open>
  \<^verbatim>\<open>func (so *S3Output) Init(config interface{}) (err error)\<close>. \<^verbatim>\<open>aws.GetAuth\<close> and the
  table \<^verbatim>\<open>aws.Regions\<close> belong to the AWS library: whether the first fails and which
  region names the second knows are parameters.
\<close>

definition Init :: "bool \<Rightarrow> string list \<Rightarrow> S3OutputConfig \<Rightarrow> error + S3Output" where
  "Init getAuthFails regions cfg =
    (if getAuthFails then Inl AuthError
     else if Region cfg \<notin> set regions then Inl RegionNotFound
     else Inr \<lparr>config = cfg, bufferFilePath = spoolPath cfg\<rparr>)"

text \<open>What the claim calls replacing every \<open>/\<close> of the prefix by \<open>_\<close>.\<close>

definition sanitize :: "string \<Rightarrow> string" where
  "sanitize s = map (\<lambda>c. if c = CHR ''/'' then CHR ''_'' else c) s"

section \<open>Wall-clock time\<close>

text \<open>
  A \<^verbatim>\<open>time.Time\<close> is an instant of the wall clock, in nanoseconds since
  1970-01-01T00:00:00Z; a \<^verbatim>\<open>time.Duration\<close> is a number of nanoseconds. Go's time
  package is a library: its calendar is the proleptic Gregorian one. A day number (days
  since 1970-01-01) is turned into a date as the library does it, by cutting off the
  cycles of 400, 100 and 4 years and then the years, here counted from 1 March of year
  0 so that the leap day is the last day of a year; \<open>daysFromCivil\<close> is the way back.
\<close>

type_synonym Time = int

definition nsPerSecond :: int where
  "nsPerSecond = 1000000000"

definition nsPerDay :: int where
  "nsPerDay = 86400 * 1000000000"

definition civilFromDays :: "int \<Rightarrow> int \<times> int \<times> int" where
  "civilFromDays z0 =
    (let z = z0 + 719468;
         era = z div 146097;
         doe = z mod 146097;
         n100 = min (doe div 36524) 3;
         d1 = doe - 36524 * n100;
         n4 = d1 div 1461;
         d2 = d1 - 1461 * n4;
         n1 = min (d2 div 365) 3;
         doy = d2 - 365 * n1;
         yoe = 100 * n100 + 4 * n4 + n1;
         mp = (5 * doy + 2) div 153;
         d = doy - (153 * mp + 2) div 5 + 1;
         m = (if mp < 10 then mp + 3 else mp - 9);
         y = yoe + era * 400
     in (if m \<le> 2 then y + 1 else y, m, d))"

definition daysFromCivil :: "int \<Rightarrow> int \<Rightarrow> int \<Rightarrow> int" where
  "daysFromCivil y0 m d =
    (let y = (if m \<le> 2 then y0 - 1 else y0);
         era = y div 400;
         yoe = y mod 400;
         doy = (153 * (if m > 2 then m - 3 else m + 9) + 2) div 5 + d - 1;
         doe = yoe * 365 + yoe div 4 - yoe div 100 + doy
     in era * 146097 + doe - 719468)"

text \<open>\<^verbatim>\<open>t.UTC().Year()\<close>, \<^verbatim>\<open>.Month()\<close>, \<^verbatim>\<open>.Day()\<close> and the clock fields.\<close>

definition Year :: "Time \<Rightarrow> int" where
  "Year t = fst (civilFromDays (t div nsPerDay))"

definition Month :: "Time \<Rightarrow> int" where
  "Month t = fst (snd (civilFromDays (t div nsPerDay)))"

definition Day :: "Time \<Rightarrow> int" where
  "Day t = snd (snd (civilFromDays (t div nsPerDay)))"

definition secondOfDay :: "Time \<Rightarrow> int" where
  "secondOfDay t = (t mod nsPerDay) div nsPerSecond"

definition Hour :: "Time \<Rightarrow> int" where
  "Hour t = secondOfDay t div 3600"

definition Minute :: "Time \<Rightarrow> int" where
  "Minute t = (secondOfDay t mod 3600) div 60"

definition Second :: "Time \<Rightarrow> int" where
  "Second t = secondOfDay t mod 60"

definition Nanosecond :: "Time \<Rightarrow> int" where
  "Nanosecond t = (t mod nsPerDay) mod nsPerSecond"

text \<open>
  \<^verbatim>\<open>time.Date(year, month, day, hour, min, sec, nsec, time.UTC)\<close>: values outside their
  usual ranges are normalised, the month into the year first.
\<close>

definition Date :: "int \<Rightarrow> int \<Rightarrow> int \<Rightarrow> int \<Rightarrow> int \<Rightarrow> int \<Rightarrow> int \<Rightarrow> Time" where
  "Date year month day hour minute sec nsec =
    daysFromCivil (year + (month - 1) div 12) ((month - 1) mod 12 + 1) day * nsPerDay
      + ((hour * 60 + minute) * 60 + sec) * nsPerSecond + nsec"

text \<open>\<^verbatim>\<open>t.AddDate(years, months, days)\<close> on a UTC time, as the library defines it.\<close>

definition AddDate :: "Time \<Rightarrow> int \<Rightarrow> int \<Rightarrow> int \<Rightarrow> Time" where
  "AddDate t years months days =
    Date (Year t + years) (Month t + months) (Day t + days)
      (Hour t) (Minute t) (Second t) (Nanosecond t)"

text \<open>
  \<^verbatim>\<open>t.Local()\<close> shows the same instant in the local zone; its fields are those of the
  instant shifted by the zone's offset (seconds east of UTC).
\<close>

definition Local :: "int \<Rightarrow> Time \<Rightarrow> Time" where
  "Local offset t = t + offset * nsPerSecond"

text \<open>
  \<^verbatim>\<open>Format\<close>: the library's \<^verbatim>\<open>appendInt\<close> writes a number in decimal, zero-padded to a
  width, with a minus sign in front when negative.
\<close>

fun digitsOf :: "nat \<Rightarrow> string" where
  "digitsOf n =
     (if n < 10 then [''0123456789'' ! n]
      else digitsOf (n div 10) @ [''0123456789'' ! (n mod 10)])"

declare digitsOf.simps [simp del]

definition appendInt :: "int \<Rightarrow> nat \<Rightarrow> string" where
  "appendInt x width =
    (let ds = digitsOf (nat \<bar>x\<bar>)
     in (if x < 0 then ''-'' else []) @ replicate (width - length ds) (CHR ''0'') @ ds)"

text \<open>Layout \<^verbatim>\<open>"2006-01-02"\<close>.\<close>

definition Format_date :: "Time \<Rightarrow> string" where
  "Format_date t = appendInt (Year t) 4 @ ''-'' @ appendInt (Month t) 2 @ ''-'' @ appendInt (Day t) 2"

text \<open>Layout \<^verbatim>\<open>"2006-01-02_150405"\<close>.\<close>

definition Format_stamp :: "Time \<Rightarrow> string" where
  "Format_stamp t =
    Format_date t @ ''_'' @ appendInt (Hour t) 2 @ appendInt (Minute t) 2 @ appendInt (Second t) 2"

section \<open>The midnight ticker\<close>

definition INTERVAL_PERIOD :: int where
  "INTERVAL_PERIOD = 24 * (3600 * nsPerSecond)"

definition HOUR_TO_TICK :: int where
  "HOUR_TO_TICK = 0"

definition MINUTE_TO_TICK :: int where
  "MINUTE_TO_TICK = 0"

definition SECOND_TO_TICK :: int where
  "SECOND_TO_TICK = 0"

text \<open>A Go call either returns or panics.\<close>

datatype 'a result = Return 'a | Panic

text \<open>
  \<^verbatim>\<open>func midnightTickerUpdate() *time.Ticker\<close> reads the clock five times: for the year,
  the month and the day of \<open>nextTick\<close>, for the comparison, and for the difference. The
  readings are the arguments, in that order. \<open>nextTick\<close> is the variable of that name
  after line 48; the ticker is given by its period, and \<^verbatim>\<open>time.NewTicker\<close> panics on a
  period that is not positive.
\<close>

definition nextTick :: "Time \<Rightarrow> Time \<Rightarrow> Time \<Rightarrow> Time \<Rightarrow> Time" where
  "nextTick nowY nowM nowD nowCmp =
    (let next = Date (Year nowY) (Month nowM) (Day nowD) HOUR_TO_TICK MINUTE_TO_TICK SECOND_TO_TICK 0
     in if \<not> (next > nowCmp) then next + INTERVAL_PERIOD else next)"

definition midnightTickerUpdate :: "Time \<Rightarrow> Time \<Rightarrow> Time \<Rightarrow> Time \<Rightarrow> Time \<Rightarrow> int result" where
  "midnightTickerUpdate nowY nowM nowD nowCmp nowSub =
    (let diff = nextTick nowY nowM nowD nowCmp - nowSub
     in if diff \<le> 0 then Panic else Return diff)"

text \<open>Today's fixed time of day: 00:00:00 UTC of the day of \<open>now\<close>.\<close>

definition todaysTick :: "Time \<Rightarrow> Time" where
  "todaysTick now = Date (Year now) (Month now) (Day now) HOUR_TO_TICK MINUTE_TO_TICK SECOND_TO_TICK 0"

section \<open>ReadFromDisk and Upload\<close>

text \<open>
  A \<^verbatim>\<open>*bytes.Buffer\<close> is a pointer: \<open>None\<close> is nil, \<open>Some b\<close> points to a buffer holding
  \<open>b\<close>. The methods of \<^verbatim>\<open>bytes.Buffer\<close> read and write fields of their receiver, so a
  call through a nil pointer panics (nil pointer dereference).
\<close>

definition Buffer_Write :: "bytes option \<Rightarrow> bytes \<Rightarrow> bytes option result" where
  "Buffer_Write b p = (case b of None \<Rightarrow> Panic | Some old \<Rightarrow> Return (Some (old @ p)))"

definition Buffer_Bytes :: "bytes option \<Rightarrow> bytes result" where
  "Buffer_Bytes b = (case b of None \<Rightarrow> Panic | Some c \<Rightarrow> Return c)"

text \<open>
  The environment of one \<open>ReadFromDisk\<close>: whether \<^verbatim>\<open>os.Open\<close> fails, whether the copy's
  read of the file fails, and the function computed by a \<^verbatim>\<open>gzip.Writer\<close> from the bytes
  written to it until \<^verbatim>\<open>Close\<close> to the bytes it hands to the writer below.
\<close>

record read_env =
  openFails :: bool
  copyFails :: bool
  gzip :: "bytes \<Rightarrow> bytes"

text \<open>
  \<^verbatim>\<open>func (so *S3Output) ReadFromDisk(or OutputRunner) (buffer *bytes.Buffer, err error)\<close>.
  The named result \<open>buffer\<close> starts as the zero value of its type, nil, and nothing
  assigns it before it is handed to \<^verbatim>\<open>gzip.NewWriter\<close> or \<^verbatim>\<open>io.Copy\<close> as the destination.
  With compression the gzip writer writes to it (at the latest the header, on
  \<^verbatim>\<open>Close\<close>); without, \<^verbatim>\<open>io.Copy\<close> calls its \<^verbatim>\<open>ReadFrom\<close>.
\<close>

definition ReadFromDisk ::
  "S3Output \<Rightarrow> read_env \<Rightarrow> world \<Rightarrow> (bytes option \<times> error option) result \<times> world" where
  "ReadFromDisk so r w =
    (let buffer = (None :: bytes option) in
     case (if openFails r then None else spoolFile w) of
       None \<Rightarrow> (Return (buffer, Some OpenError), w)
     | Some contents \<Rightarrow>
         if Compression (config so) then
           (let w1 = emit (LogMessage ''Reading and compressing buffer file.'') w in
            case Buffer_Write buffer (gzip r contents) of
              Panic \<Rightarrow> (Panic, w1)
            | Return b \<Rightarrow> (Return (b, if copyFails r then Some CopyError else None), w1))
         else
           (let w1 = emit (LogMessage ''Reading buffer file.'') w in
            case Buffer_Write buffer contents of
              Panic \<Rightarrow> (Panic, w1)
            | Return b \<Rightarrow> (Return (b, if copyFails r then Some CopyError else None), w1)))"

text \<open>
  The environment of one \<open>Upload\<close>: whether the \<^verbatim>\<open>os.Stat\<close> of line 213 returns an
  error other than "does not exist", the faults of its spill and of its read, the clock
  reading behind \<open>currentTime\<close> with the local zone's offset, the later clock reading
  behind \<open>currentDate\<close>, and whether the put to the bucket and \<^verbatim>\<open>os.Remove\<close> fail.
\<close>

record upload_env =
  statSpoolFails :: bool
  diskFaults :: disk_faults
  readEnv :: read_env
  nowTime :: Time
  zoneOffset :: int
  nowDate :: Time
  putFails :: bool
  removeFails :: bool

text \<open>Lines 231 to 249 of \<open>Upload\<close>: the key and the content type.\<close>

definition uploadPath :: "S3OutputConfig \<Rightarrow> bool \<Rightarrow> Time \<Rightarrow> int \<Rightarrow> Time \<Rightarrow> string" where
  "uploadPath cfg isMidnight nowT offset nowD =
    (let currentTime = Format_stamp (Local offset nowT);
         currentDate = (if isMidnight then Format_date (AddDate nowD 0 0 (- 1))
                        else Format_date nowD);
         ext = (if Compression cfg then ''.gz'' else [])
     in Prefix cfg @ ''/'' @ currentDate @ ''/'' @ currentTime @ ext)"

definition uploadContentType :: "S3OutputConfig \<Rightarrow> string" where
  "uploadContentType cfg = (if Compression cfg then ''multipart/x-gzip'' else ''text/plain'')"

text \<open>
  Lines 231 to 259 of \<open>Upload\<close>, what it does once \<open>ReadFromDisk\<close> has returned the
  pointer \<open>buffer\<close> without error: put, log, and remove the spool file if the put
  succeeded.
\<close>

definition Upload_put ::
  "S3Output \<Rightarrow> bool \<Rightarrow> upload_env \<Rightarrow> bytes option \<Rightarrow> world \<Rightarrow> error option result \<times> world" where
  "Upload_put so isMidnight env buffer w =
    (let path = uploadPath (config so) isMidnight (nowTime env) (zoneOffset env) (nowDate env);
         contentType = uploadContentType (config so)
     in case Buffer_Bytes buffer of
          Panic \<Rightarrow> (Panic, w)
        | Return body \<Rightarrow>
            (let w1 = emit (BucketPut path body contentType) w;
                 w2 = emit (LogMessage ''Upload finished, removing buffer file on disk.'') w1
             in if putFails env
                then (Return (Some PutError), emit (LogMessage ''Error putting to S3 bucket'') w2)
                else
                  (let w3 = emit OsRemove w2
                   in if removeFails env \<or> spoolFile w3 = None then (Return (Some RemoveError), w3)
                      else (Return None, w3\<lparr>spoolFile := None\<rparr>))))"

text \<open>
  \<^verbatim>\<open>func (so *S3Output) Upload(buffer *bytes.Buffer, or OutputRunner, isMidnight bool)\<close>.
  \<open>notExist\<close> is \<^verbatim>\<open>os.IsNotExist(err)\<close> for the error of the \<^verbatim>\<open>os.Stat\<close> of line 213.
  The assignment of line 225 rebinds the local pointer \<open>buffer\<close>; the caller's memory
  buffer is not touched after \<open>SaveToDisk\<close>.
\<close>

definition Upload :: "S3Output \<Rightarrow> bool \<Rightarrow> upload_env \<Rightarrow> world \<Rightarrow> error option result \<times> world" where
  "Upload so isMidnight env w =
    (let notExist = (\<not> statSpoolFails env \<and> spoolFile w = None) in
     if length (memBuffer w) = 0 \<and> notExist then (Return (Some NothingToUpload), w)
     else
       (case SaveToDisk so (diskFaults env) w of
          (Some e, w1) \<Rightarrow> (Return (Some e), emit (LogMessage ''Cannot save to disk'') w1)
        | (None, w1) \<Rightarrow>
            (case ReadFromDisk so (readEnv env) w1 of
               (Panic, w2) \<Rightarrow> (Panic, w2)
             | (Return (buffer, Some e), w2) \<Rightarrow>
                 (Return (Some e), emit (LogMessage ''Cannot read from disk'') w2)
             | (Return (buffer, None), w2) \<Rightarrow> Upload_put so isMidnight env buffer w2)))"

section \<open>Sequences of operations\<close>

text \<open>
  The operations \<open>Run\<close> performs on the buffer and the spool file, each with the
  environment it meets: a record appended with \<open>WriteToBuffer\<close>, a spill with
  \<open>SaveToDisk\<close>, an upload with \<open>Upload\<close>.
\<close>

datatype operation =
  Append bytes disk_faults
  | Spill disk_faults
  | UploadOp bool upload_env

text \<open>
  The state of a run: the world, the payloads handed to \<open>WriteToBuffer\<close> so far in
  arrival order, whether some upload has returned without error, and whether the process
  has panicked (after which nothing more is executed). After an upload that returns
  without error \<open>Run\<close> resets the buffer (lines 119 and 129); after one that returns an
  error it goes on to the next event.
\<close>

record run_state =
  theWorld :: world
  accepted :: "bytes list"
  delivered :: bool
  panicked :: bool

definition step :: "S3Output \<Rightarrow> operation \<Rightarrow> run_state \<Rightarrow> run_state" where
  "step so op s =
    (if panicked s then s
     else
       (case op of
          Append p f \<Rightarrow>
            s\<lparr>theWorld := snd (WriteToBuffer so p f (theWorld s)), accepted := accepted s @ [p]\<rparr>
        | Spill f \<Rightarrow> s\<lparr>theWorld := snd (SaveToDisk so f (theWorld s))\<rparr>
        | UploadOp isMidnight env \<Rightarrow>
            (case Upload so isMidnight env (theWorld s) of
               (Panic, w) \<Rightarrow> s\<lparr>theWorld := w, panicked := True\<rparr>
             | (Return (Some e), w) \<Rightarrow> s\<lparr>theWorld := w\<rparr>
             | (Return None, w) \<Rightarrow> s\<lparr>theWorld := w\<lparr>memBuffer := []\<rparr>, delivered := True\<rparr>)))"

fun exec :: "S3Output \<Rightarrow> operation list \<Rightarrow> run_state \<Rightarrow> run_state" where
  "exec so [] s = s"
| "exec so (op # ops) s = exec so ops (step so op s)"

definition start :: "world \<Rightarrow> run_state" where
  "start w = \<lparr>theWorld = w, accepted = [], delivered = False, panicked = False\<rparr>"


section \<open>Notions the properties are stated with\<close>

text \<open>The UTC day number of an instant, and the date \<open>YYYY-MM-DD\<close> of a day number.\<close>

definition utcDay :: "Time \<Rightarrow> int" where
  "utcDay t = t div nsPerDay"

definition dateOfDay :: "int \<Rightarrow> string" where
  "dateOfDay n =
    (case civilFromDays n of
       (y, m, d) \<Rightarrow> appendInt y 4 @ ''-'' @ appendInt m 2 @ ''-'' @ appendInt d 2)"

text \<open>The time of day \<open>HHMMSS\<close> of an instant.\<close>

definition clockOfDay :: "Time \<Rightarrow> string" where
  "clockOfDay t = appendInt (Hour t) 2 @ appendInt (Minute t) 2 @ appendInt (Second t) 2"

text \<open>
  A configuration, with the threshold of 10 bytes of the specification's scenario, the
  plugin it initialises, an environment in which every call succeeds, taken at
  2024-03-02T00:00:01Z in a zone one hour east of UTC, and an empty world.
\<close>

definition exampleConfig :: S3OutputConfig where
  "exampleConfig =
    \<lparr>SecretKey = ''secret'', AccessKey = ''access'', Region = ''us-east-1'', Bucket = ''logs'',
     Prefix = ''heka/prod'', TickerInterval = 60, Compression = True,
     BufferPath = ''/var/spool/heka'', BufferChunkLimit = 10\<rparr>"

definition exampleOutput :: S3Output where
  "exampleOutput = \<lparr>config = exampleConfig, bufferFilePath = spoolPath exampleConfig\<rparr>"

definition plainOutput :: S3Output where
  "plainOutput =
    \<lparr>config = exampleConfig\<lparr>Compression := False\<rparr>, bufferFilePath = spoolPath exampleConfig\<rparr>"

definition noFaults :: disk_faults where
  "noFaults =
    \<lparr>statDirFails = False, mkdirAllFails = False, chdirFails = False, statFileFails = False,
     createFails = False, openFileFails = False, writeFails = None\<rparr>"

definition healthyEnv :: upload_env where
  "healthyEnv =
    \<lparr>statSpoolFails = False, diskFaults = noFaults,
     readEnv = \<lparr>openFails = False, copyFails = False, gzip = (\<lambda>b. ''gzip of '' @ b)\<rparr>,
     nowTime = 1709337601000000000, zoneOffset = 3600, nowDate = 1709337601000000000,
     putFails = False, removeFails = False\<rparr>"

definition emptyWorld :: world where
  "emptyWorld = \<lparr>memBuffer = [], stagingDir = False, spoolFile = None, events = []\<rparr>"

definition spooledWorld :: world where
  "spooledWorld = \<lparr>memBuffer = [], stagingDir = True, spoolFile = Some ''abc'', events = []\<rparr>"


section \<open>SaveToDisk: spill atomicity\<close>

lemma spillSizes_append: "spillSizes (xs @ ys) = spillSizes xs @ spillSizes ys"
  by (induction xs rule: spillSizes.induct) simp_all

lemma spillSizes_emit:
  "spillSizes (events (emit e w)) = spillSizes (events w) @ spillSizes [e]"
  by (simp add: emit_def spillSizes_append)

lemma emit_fields [simp]:
  "memBuffer (emit e w) = memBuffer w" "spoolFile (emit e w) = spoolFile w"
  "stagingDir (emit e w) = stagingDir w" "spoolBytes (emit e w) = spoolBytes w"
  by (simp_all add: emit_def spoolBytes_def)

lemma SaveToDisk_events_spill:
  "spillSizes (events (snd (SaveToDisk so f w))) = spillSizes (events w) @ [length (memBuffer w)]"
  by (cases "spoolFile w"; cases "writeFails f";
      simp add: SaveToDisk_def emit_def Let_def spillSizes_append)

lemma SaveToDisk_ok:
  "\<not> someStepFails f w \<Longrightarrow>
     fst (SaveToDisk so f w) = None \<and> memBuffer (snd (SaveToDisk so f w)) = []
     \<and> spoolFile (snd (SaveToDisk so f w)) = Some (spoolBytes w @ memBuffer w)"
  by (cases "spoolFile w"; cases "stagingDir w";
      simp add: SaveToDisk_def someStepFails_def emit_def Let_def spoolBytes_def)

lemma SaveToDisk_fail:
  "someStepFails f w \<Longrightarrow>
     fst (SaveToDisk so f w) \<noteq> None \<and> memBuffer (snd (SaveToDisk so f w)) = memBuffer w"
  by (cases "spoolFile w"; cases "writeFails f"; cases "stagingDir w";
      simp add: SaveToDisk_def someStepFails_def emit_def Let_def; blast)


text \<open>
  C3 (spill atomicity). If a step of \<open>SaveToDisk\<close> fails (creating the staging directory,
  changing into it, creating the spool file, opening it, or the appending write), the call
  returns an error and the memory buffer is what it was; otherwise the call returns no
  error, the spool file holds its old contents followed by the buffer, and the buffer is
  empty. So the buffer is reset only after the write has succeeded.
\<close>

theorem SaveToDisk_atomic:
  "(if someStepFails f w
    then fst (SaveToDisk so f w) \<noteq> None \<and> memBuffer (snd (SaveToDisk so f w)) = memBuffer w
    else fst (SaveToDisk so f w) = None \<and> memBuffer (snd (SaveToDisk so f w)) = []
      \<and> spoolFile (snd (SaveToDisk so f w)) = Some (spoolBytes w @ memBuffer w))"
  using SaveToDisk_ok [of f w so] SaveToDisk_fail [of f w so] by simp

text \<open>
  The theorem at two inputs: a write that fails after two bytes leaves the three buffered
  bytes in place; a spill without fault appends them to the spool file and empties the
  buffer.
\<close>

theorem SaveToDisk_atomic_witness:
  "fst (SaveToDisk exampleOutput (noFaults\<lparr>writeFails := Some 2\<rparr>) (emptyWorld\<lparr>memBuffer := ''abc''\<rparr>)) \<noteq> None
   \<and> memBuffer (snd (SaveToDisk exampleOutput (noFaults\<lparr>writeFails := Some 2\<rparr>)
        (emptyWorld\<lparr>memBuffer := ''abc''\<rparr>))) = ''abc''
   \<and> fst (SaveToDisk exampleOutput noFaults (spooledWorld\<lparr>memBuffer := ''def''\<rparr>)) = None
   \<and> memBuffer (snd (SaveToDisk exampleOutput noFaults (spooledWorld\<lparr>memBuffer := ''def''\<rparr>))) = []
   \<and> spoolFile (snd (SaveToDisk exampleOutput noFaults (spooledWorld\<lparr>memBuffer := ''def''\<rparr>)))
       = Some ''abcdef''"
  using SaveToDisk_atomic [of "noFaults\<lparr>writeFails := Some 2\<rparr>" "emptyWorld\<lparr>memBuffer := ''abc''\<rparr>"
      exampleOutput]
    SaveToDisk_atomic [of noFaults "spooledWorld\<lparr>memBuffer := ''def''\<rparr>" exampleOutput]
  by (simp add: someStepFails_def noFaults_def emptyWorld_def spooledWorld_def spoolBytes_def)


lemma SaveToDisk_error_kind: "fst (SaveToDisk so f w) \<noteq> Some NothingToUpload"
  by (cases "spoolFile w"; cases "writeFails f";
      simp add: SaveToDisk_def emit_def Let_def)

lemma SaveToDisk_spool_exists:
  "fst (SaveToDisk so f w) = None \<Longrightarrow> spoolFile (snd (SaveToDisk so f w)) \<noteq> None"
  by (cases "someStepFails f w") (use SaveToDisk_ok [of f w so] SaveToDisk_fail [of f w so] in auto)

section \<open>WriteToBuffer: the size trigger\<close>


text \<open>
  C5 (size trigger). \<open>WriteToBuffer\<close> appends the payload and then calls \<open>SaveToDisk\<close>
  exactly when the buffer's length is strictly above \<open>BufferChunkLimit\<close>: in that case
  it is the spill of the appended buffer, entered once with that length, which is at least
  the limit; at or below the limit it returns no error, only the buffer has grown, and no
  spill is entered.
\<close>

theorem WriteToBuffer_size_trigger:
  "(if BufferChunkLimit (config so) < int (length (memBuffer w @ outBytes))
    then WriteToBuffer so outBytes f w = SaveToDisk so f (w\<lparr>memBuffer := memBuffer w @ outBytes\<rparr>)
      \<and> spillSizes (events (snd (WriteToBuffer so outBytes f w)))
          = spillSizes (events w) @ [length (memBuffer w @ outBytes)]
      \<and> BufferChunkLimit (config so) \<le> int (length (memBuffer w @ outBytes))
    else WriteToBuffer so outBytes f w = (None, w\<lparr>memBuffer := memBuffer w @ outBytes\<rparr>)
      \<and> spillSizes (events (snd (WriteToBuffer so outBytes f w))) = spillSizes (events w))"
  using SaveToDisk_events_spill [of so f "w\<lparr>memBuffer := memBuffer w @ outBytes\<rparr>"]
  by (simp add: WriteToBuffer_def Let_def)

text \<open>
  The specification's scenario with a limit of 10: one byte does not spill, fifteen more
  spill all sixteen.
\<close>

theorem WriteToBuffer_size_trigger_witness:
  "\<not> BufferChunkLimit (config exampleOutput) < int (length (memBuffer emptyWorld @ ''a''))
   \<and> WriteToBuffer exampleOutput ''a'' noFaults emptyWorld
       = (None, emptyWorld\<lparr>memBuffer := memBuffer emptyWorld @ ''a''\<rparr>)
   \<and> BufferChunkLimit (config exampleOutput)
       < int (length (memBuffer (emptyWorld\<lparr>memBuffer := ''a''\<rparr>) @ ''bcdefghijklmnop''))
   \<and> spillSizes (events (snd (WriteToBuffer exampleOutput ''bcdefghijklmnop'' noFaults
        (emptyWorld\<lparr>memBuffer := ''a''\<rparr>))))
       = spillSizes (events (emptyWorld\<lparr>memBuffer := ''a''\<rparr>))
         @ [length (memBuffer (emptyWorld\<lparr>memBuffer := ''a''\<rparr>) @ ''bcdefghijklmnop'')]"
proof -
  have small: "\<not> BufferChunkLimit (config exampleOutput) < int (length (memBuffer emptyWorld @ ''a''))"
    by (simp add: exampleOutput_def exampleConfig_def emptyWorld_def)
  have large: "BufferChunkLimit (config exampleOutput)
       < int (length (memBuffer (emptyWorld\<lparr>memBuffer := ''a''\<rparr>) @ ''bcdefghijklmnop''))"
    by (simp add: exampleOutput_def exampleConfig_def emptyWorld_def)
  note s = WriteToBuffer_size_trigger [of exampleOutput emptyWorld "''a''" noFaults,
      unfolded if_not_P [OF small]]
  note l = WriteToBuffer_size_trigger [of exampleOutput "emptyWorld\<lparr>memBuffer := ''a''\<rparr>"
      "''bcdefghijklmnop''" noFaults, unfolded if_P [OF large]]
  have 1: "WriteToBuffer exampleOutput ''a'' noFaults emptyWorld
       = (None, emptyWorld\<lparr>memBuffer := memBuffer emptyWorld @ ''a''\<rparr>)"
    using s by (rule conjunct1)
  have 2: "spillSizes (events (snd (WriteToBuffer exampleOutput ''bcdefghijklmnop'' noFaults
        (emptyWorld\<lparr>memBuffer := ''a''\<rparr>))))
       = spillSizes (events (emptyWorld\<lparr>memBuffer := ''a''\<rparr>))
         @ [length (memBuffer (emptyWorld\<lparr>memBuffer := ''a''\<rparr>) @ ''bcdefghijklmnop'')]"
    using l by (rule conjunct1 [OF conjunct2])
  from small 1 large 2 show ?thesis by blast
qed

section \<open>ReadFromDisk and Upload\<close>

lemma ReadFromDisk_result:
  "fst (ReadFromDisk so r w) =
     (if openFails r \<or> spoolFile w = None then Return (None, Some OpenError) else Panic)"
  by (cases "spoolFile w") (simp_all add: ReadFromDisk_def Buffer_Write_def Let_def)

lemma ReadFromDisk_world:
  "spoolFile (snd (ReadFromDisk so r w)) = spoolFile w"
  "memBuffer (snd (ReadFromDisk so r w)) = memBuffer w"
  "spillSizes (events (snd (ReadFromDisk so r w))) = spillSizes (events w)"
  by (cases "spoolFile w";
      simp add: ReadFromDisk_def Buffer_Write_def Let_def spillSizes_emit)+

lemma ReadFromDisk_unopened:
  "openFails r \<or> spoolFile w = None \<Longrightarrow> snd (ReadFromDisk so r w) = w"
  by (cases "spoolFile w") (auto simp: ReadFromDisk_def Let_def)

lemma Upload_cases:
  "Upload so m env w =
     (if memBuffer w = [] \<and> \<not> statSpoolFails env \<and> spoolFile w = None
      then (Return (Some NothingToUpload), w)
      else if fst (SaveToDisk so (diskFaults env) w) \<noteq> None
      then (Return (fst (SaveToDisk so (diskFaults env) w)),
            emit (LogMessage ''Cannot save to disk'') (snd (SaveToDisk so (diskFaults env) w)))
      else if openFails (readEnv env)
      then (Return (Some OpenError),
            emit (LogMessage ''Cannot read from disk'') (snd (SaveToDisk so (diskFaults env) w)))
      else (Panic, snd (ReadFromDisk so (readEnv env) (snd (SaveToDisk so (diskFaults env) w)))))"
proof -
  obtain e w1 where s: "SaveToDisk so (diskFaults env) w = (e, w1)"
    by (cases "SaveToDisk so (diskFaults env) w") auto
  obtain x w2 where r: "ReadFromDisk so (readEnv env) w1 = (x, w2)"
    by (cases "ReadFromDisk so (readEnv env) w1") auto
  have x: "x = (if openFails (readEnv env) \<or> spoolFile w1 = None
                then Return (None, Some OpenError) else Panic)"
    using ReadFromDisk_result [of so "readEnv env" w1] by (simp add: r)
  have w2: "openFails (readEnv env) \<or> spoolFile w1 = None \<Longrightarrow> w2 = w1"
    using ReadFromDisk_unopened [of "readEnv env" w1 so] by (simp add: r)
  have ex: "e = None \<Longrightarrow> spoolFile w1 \<noteq> None"
    using SaveToDisk_spool_exists [of so "diskFaults env" w] by (simp add: s)
  show ?thesis
  proof (cases e)
    case None
    with ex have "spoolFile w1 \<noteq> None" by simp
    with None x w2 show ?thesis by (auto simp: Upload_def Let_def s r)
  next
    case (Some a)
    then show ?thesis by (simp add: Upload_def Let_def s)
  qed
qed

lemma Upload_never_succeeds: "fst (Upload so m env w) \<noteq> Return None"
  unfolding Upload_cases by simp


text \<open>
  C4 (nothing to upload), as amended: with an empty memory buffer, no spool file, and an
  \<^verbatim>\<open>os.Stat\<close> that reports it absent, \<open>Upload\<close> returns the error "Nothing to upload." and
  leaves the world as it was: no event, hence no put, no spill and no removal. If the
  buffer is not empty, the file exists, or \<^verbatim>\<open>os.Stat\<close> fails with another error,
  \<open>Upload\<close> does not return that error and goes on to its spill, entered once with the
  buffer's length: it returns the spill's error if the spill fails, and goes on to its read
  otherwise.
\<close>

theorem Upload_nothing_to_upload:
  "(if memBuffer w = [] \<and> spoolFile w = None \<and> \<not> statSpoolFails env
    then Upload so isMidnight env w = (Return (Some NothingToUpload), w)
    else fst (Upload so isMidnight env w) \<noteq> Return (Some NothingToUpload)
      \<and> spillSizes (events (snd (Upload so isMidnight env w)))
          = spillSizes (events w) @ [length (memBuffer w)]
      \<and> fst (Upload so isMidnight env w)
          = (if fst (SaveToDisk so (diskFaults env) w) \<noteq> None
             then Return (fst (SaveToDisk so (diskFaults env) w))
             else if openFails (readEnv env) then Return (Some OpenError)
             else Panic))"
proof (cases "memBuffer w = [] \<and> spoolFile w = None \<and> \<not> statSpoolFails env")
  case True
  then show ?thesis by (simp add: Upload_def)
next
  case False
  then have g: "\<not> (memBuffer w = [] \<and> \<not> statSpoolFails env \<and> spoolFile w = None)" by blast
  have a: "fst (Upload so isMidnight env w) \<noteq> Return (Some NothingToUpload)"
    unfolding Upload_cases using g SaveToDisk_error_kind [of so "diskFaults env" w] by auto
  have b: "spillSizes (events (snd (Upload so isMidnight env w)))
          = spillSizes (events w) @ [length (memBuffer w)]"
    unfolding Upload_cases using g
    by (simp add: spillSizes_emit ReadFromDisk_world SaveToDisk_events_spill)
  have c: "fst (Upload so isMidnight env w)
          = (if fst (SaveToDisk so (diskFaults env) w) \<noteq> None
             then Return (fst (SaveToDisk so (diskFaults env) w))
             else if openFails (readEnv env) then Return (Some OpenError)
             else Panic)"
    unfolding Upload_cases using g by auto
  show ?thesis by (subst if_not_P [OF False]) (rule conjI [OF a conjI [OF b c]])
qed

text \<open>
  The theorem on the empty world, on a world whose spool file holds three bytes, and on
  the empty world behind an \<^verbatim>\<open>os.Stat\<close> that fails.
\<close>

theorem Upload_nothing_to_upload_witness:
  "Upload exampleOutput True healthyEnv emptyWorld = (Return (Some NothingToUpload), emptyWorld)
   \<and> fst (Upload exampleOutput True healthyEnv spooledWorld) \<noteq> Return (Some NothingToUpload)
   \<and> spillSizes (events (snd (Upload exampleOutput True healthyEnv spooledWorld))) = [0]
   \<and> fst (Upload exampleOutput True (healthyEnv\<lparr>statSpoolFails := True\<rparr>) emptyWorld)
       \<noteq> Return (Some NothingToUpload)"
proof -
  have e: "memBuffer emptyWorld = [] \<and> spoolFile emptyWorld = None \<and> \<not> statSpoolFails healthyEnv"
    by (simp add: emptyWorld_def healthyEnv_def)
  have s: "\<not> (memBuffer spooledWorld = [] \<and> spoolFile spooledWorld = None
      \<and> \<not> statSpoolFails healthyEnv)"
    by (simp add: spooledWorld_def)
  have t: "\<not> (memBuffer emptyWorld = [] \<and> spoolFile emptyWorld = None
      \<and> \<not> statSpoolFails (healthyEnv\<lparr>statSpoolFails := True\<rparr>))"
    by simp
  note 1 = Upload_nothing_to_upload [of emptyWorld healthyEnv exampleOutput True,
      unfolded if_P [OF e]]
  note 2 = Upload_nothing_to_upload [of spooledWorld healthyEnv exampleOutput True,
      unfolded if_not_P [OF s]]
  note 3 = Upload_nothing_to_upload [of emptyWorld "healthyEnv\<lparr>statSpoolFails := True\<rparr>"
      exampleOutput True, unfolded if_not_P [OF t]]
  from 2 have "spillSizes (events (snd (Upload exampleOutput True healthyEnv spooledWorld)))
      = spillSizes (events spooledWorld) @ [length (memBuffer spooledWorld)]"
    by (rule conjunct1 [OF conjunct2])
  then have "spillSizes (events (snd (Upload exampleOutput True healthyEnv spooledWorld))) = [0]"
    by (simp add: spooledWorld_def)
  with 1 2 3 show ?thesis by blast
qed

text \<open>
  The claim as stated fails when \<^verbatim>\<open>os.Stat\<close> cannot tell: the staging directory is there
  but may not be searched, so \<^verbatim>\<open>os.Stat\<close> of the spool file and \<^verbatim>\<open>os.Chdir\<close> fail. The
  buffer is empty and the spool file does not exist, yet \<open>Upload\<close> enters its spill and
  returns the error of \<^verbatim>\<open>os.Chdir\<close>.
\<close>

theorem Upload_stat_error_counterexample:
  "memBuffer (emptyWorld\<lparr>stagingDir := True\<rparr>) = []
   \<and> spoolFile (emptyWorld\<lparr>stagingDir := True\<rparr>) = None
   \<and> Upload exampleOutput False
        (healthyEnv\<lparr>statSpoolFails := True,
           diskFaults := noFaults\<lparr>statFileFails := True, chdirFails := True\<rparr>\<rparr>)
        (emptyWorld\<lparr>stagingDir := True\<rparr>)
     = (Return (Some ChdirError),
        emptyWorld\<lparr>stagingDir := True,
          events := [SaveToDiskCall 0, LogMessage ''Cannot save to disk'']\<rparr>)"
  by code_simp

section \<open>The calendar\<close>

lemma civil_roundtrip:
  assumes "civilFromDays z = (y, m, d)"
  shows "daysFromCivil y m d = z \<and> 1 \<le> m \<and> m \<le> 12"
proof -
  define doe where "doe = (z + 719468) mod 146097"
  define era where "era = (z + 719468) div 146097"
  define n100 where "n100 = min (doe div 36524) 3"
  define d1 where "d1 = doe - 36524 * n100"
  define n4 where "n4 = d1 div 1461"
  define d2 where "d2 = d1 - 1461 * n4"
  define n1 where "n1 = min (d2 div 365) 3"
  define doy where "doy = d2 - 365 * n1"
  define yoe where "yoe = 100 * n100 + 4 * n4 + n1"
  define mp where "mp = (5 * doy + 2) div 153"
  have doe: "0 \<le> doe" "doe < 146097" by (simp_all add: doe_def)
  have z: "z + 719468 = era * 146097 + doe" by (simp add: era_def doe_def)
  have n100: "0 \<le> n100" "n100 \<le> 3" using doe by (simp_all add: n100_def)
  have d1: "0 \<le> d1" "d1 \<le> 36524" using doe unfolding d1_def n100_def by linarith+
  have n4: "0 \<le> n4" "n4 \<le> 24" using d1 unfolding n4_def by linarith+
  have d2: "0 \<le> d2" "d2 \<le> 1460" using d1 unfolding d2_def n4_def by linarith+
  have n1: "0 \<le> n1" "n1 \<le> 3" using d2 by (simp_all add: n1_def)
  have doy: "0 \<le> doy" "doy \<le> 365" using d2 unfolding doy_def n1_def by linarith+
  have mp: "0 \<le> mp" "mp \<le> 11" using doy unfolding mp_def by linarith+
  have yoe: "0 \<le> yoe" "yoe < 400" using n100 n4 n1 unfolding yoe_def by linarith+
  have q4: "yoe div 4 = 25 * n100 + n4" using n1 unfolding yoe_def by linarith
  have q100: "yoe div 100 = n100" using n1 n4 unfolding yoe_def by linarith
  have cf: "civilFromDays z =
      (if (if mp < 10 then mp + 3 else mp - 9) \<le> 2 then yoe + era * 400 + 1 else yoe + era * 400,
       (if mp < 10 then mp + 3 else mp - 9), doy - (153 * mp + 2) div 5 + 1)"
    unfolding civilFromDays_def Let_def mp_def doy_def yoe_def n1_def d2_def n4_def d1_def
      n100_def doe_def era_def by (rule refl)
  have m: "m = (if mp < 10 then mp + 3 else mp - 9)"
    and d: "d = doy - (153 * mp + 2) div 5 + 1"
    and y: "y = (if m \<le> 2 then yoe + era * 400 + 1 else yoe + era * 400)"
    using assms unfolding cf by auto
  have mrange: "1 \<le> m \<and> m \<le> 12" using m mp by auto
  have mp': "(if m > 2 then m - 3 else m + 9) = mp" using m mp by auto
  have y': "(if m \<le> 2 then y - 1 else y) = yoe + era * 400" using y by auto
  have e1: "(yoe + era * 400) div 400 = era" using yoe by linarith
  have e2: "(yoe + era * 400) mod 400 = yoe" using yoe by simp
  have "daysFromCivil y m d = era * 146097 + (yoe * 365 + yoe div 4 - yoe div 100 + ((153 * mp + 2) div 5 + d - 1)) - 719468"
    unfolding daysFromCivil_def Let_def y' mp' e1 e2 by simp
  also have "\<dots> = era * 146097 + doe - 719468"
    unfolding d q4 q100 using doy_def d2_def d1_def yoe_def by linarith
  also have "\<dots> = z" using z by linarith
  finally show ?thesis using mrange by simp
qed

lemma Date_fields:
  "Date (Year t) (Month t) (Day t + k) h mi sc ns =
     (t div nsPerDay + k) * nsPerDay + ((h * 60 + mi) * 60 + sc) * nsPerSecond + ns"
proof -
  obtain y m d where c: "civilFromDays (t div nsPerDay) = (y, m, d)"
    by (cases "civilFromDays (t div nsPerDay)") auto
  from civil_roundtrip [OF c] have r: "daysFromCivil y m d = t div nsPerDay" and m: "1 \<le> m" "m \<le> 12"
    by simp_all
  have n1: "(m - 1) div 12 = 0" and n2: "(m - 1) mod 12 + 1 = m" using m by simp_all
  have lin: "daysFromCivil y m (d + k) = daysFromCivil y m d + k"
    by (simp add: daysFromCivil_def Let_def)
  show ?thesis
    by (simp add: Date_def Year_def Month_def Day_def c n1 n2 lin r)
qed

lemma clock_fields:
  "((Hour t * 60 + Minute t) * 60 + Second t) * nsPerSecond + Nanosecond t = t mod nsPerDay"
proof -
  define s where "s = secondOfDay t"
  define q where "q = s div 3600"
  define r where "r = s mod 3600"
  define q2 where "q2 = r div 60"
  define r2 where "r2 = r mod 60"
  have a: "s = q * 3600 + r" by (simp add: q_def r_def)
  have b: "r = q2 * 60 + r2" by (simp add: q2_def r2_def)
  have c: "s mod 60 = r2" unfolding r2_def r_def by (simp add: mod_mod_cancel)
  have 1: "(q * 60 + q2) * 60 + r2 = s" by (simp add: a b algebra_simps)
  have 2: "(Hour t * 60 + Minute t) * 60 + Second t = s"
    unfolding Hour_def Minute_def Second_def s_def [symmetric] c
    unfolding q_def [symmetric] r_def [symmetric] q2_def [symmetric] by (rule 1)
  have 3: "s * nsPerSecond + Nanosecond t = t mod nsPerDay"
    unfolding s_def secondOfDay_def Nanosecond_def by simp
  show ?thesis unfolding 2 by (rule 3)
qed

lemma AddDate_days: "AddDate t 0 0 k = t + k * nsPerDay"
proof -
  have "AddDate t 0 0 k =
      Date (Year t) (Month t) (Day t + k) (Hour t) (Minute t) (Second t) (Nanosecond t)"
    by (simp add: AddDate_def)
  also have "\<dots> = (t div nsPerDay + k) * nsPerDay
      + (((Hour t * 60 + Minute t) * 60 + Second t) * nsPerSecond + Nanosecond t)"
    by (simp only: Date_fields add.assoc)
  also have "\<dots> = (t div nsPerDay + k) * nsPerDay + t mod nsPerDay"
    by (simp only: clock_fields)
  also have "\<dots> = t + k * nsPerDay"
    by (simp add: algebra_simps)
  finally show ?thesis .
qed

lemma todaysTick_eq: "todaysTick now = (now div nsPerDay) * nsPerDay"
  using Date_fields [of now 0 0 0 0 0]
  by (simp add: todaysTick_def HOUR_TO_TICK_def MINUTE_TO_TICK_def SECOND_TO_TICK_def)

lemma todaysTick_le: "todaysTick now \<le> now"
proof -
  have "0 \<le> now mod nsPerDay" by (simp add: nsPerDay_def)
  moreover have "now = (now div nsPerDay) * nsPerDay + now mod nsPerDay" by simp
  ultimately show ?thesis unfolding todaysTick_eq by linarith
qed

lemma todaysTick_next: "now < todaysTick now + INTERVAL_PERIOD"
proof -
  have "now mod nsPerDay < nsPerDay" by (simp add: nsPerDay_def)
  moreover have "now = (now div nsPerDay) * nsPerDay + now mod nsPerDay" by simp
  moreover have "INTERVAL_PERIOD = nsPerDay" by (simp add: INTERVAL_PERIOD_def nsPerDay_def nsPerSecond_def)
  ultimately show ?thesis unfolding todaysTick_eq by linarith
qed

lemma nextTick_same_day:
  assumes "nowM div nsPerDay = nowY div nsPerDay" "nowD div nsPerDay = nowY div nsPerDay"
  shows "nextTick nowY nowM nowD nowCmp =
    (if todaysTick nowY > nowCmp then todaysTick nowY else todaysTick nowY + INTERVAL_PERIOD)"
  using assms by (simp add: nextTick_def todaysTick_def Let_def Year_def Month_def Day_def)

text \<open>
  When the five clock readings are one instant \<open>now\<close>, the next tick is today's 00:00:00
  UTC if that is strictly after \<open>now\<close> and the same time of day 24 hours later otherwise;
  today's 00:00:00 UTC is never after \<open>now\<close>, so it is the one 24 hours later, strictly
  after \<open>now\<close>, and the ticker's period is positive.
\<close>

lemma midnightTickerUpdate_one_instant:
  "nextTick now now now now =
     (if todaysTick now > now then todaysTick now else todaysTick now + INTERVAL_PERIOD)
   \<and> nextTick now now now now > now
   \<and> nextTick now now now now = todaysTick now + INTERVAL_PERIOD
   \<and> midnightTickerUpdate now now now now now = Return (nextTick now now now now - now)"
proof -
  have a: "nextTick now now now now =
     (if todaysTick now > now then todaysTick now else todaysTick now + INTERVAL_PERIOD)"
    by (rule nextTick_same_day) simp_all
  have b: "nextTick now now now now = todaysTick now + INTERVAL_PERIOD"
    using a todaysTick_le [of now] by simp
  have c: "nextTick now now now now > now"
    using b todaysTick_next [of now] by simp
  have d: "midnightTickerUpdate now now now now now = Return (nextTick now now now now - now)"
    using c by (simp add: midnightTickerUpdate_def Let_def)
  show ?thesis using a b c d by blast
qed

text \<open>
  The same holds when the five clock readings differ but fall on one UTC day.
\<close>

lemma midnightTickerUpdate_same_day:
  assumes "utcDay nowM = utcDay nowY" "utcDay nowD = utcDay nowY"
    and "utcDay nowCmp = utcDay nowY" "utcDay nowSub = utcDay nowY"
  shows "midnightTickerUpdate nowY nowM nowD nowCmp nowSub
     = Return (todaysTick nowY + INTERVAL_PERIOD - nowSub)"
proof -
  have t: "todaysTick nowCmp = todaysTick nowY" "todaysTick nowSub = todaysTick nowY"
    using assms(3,4) by (simp_all add: todaysTick_eq utcDay_def)
  have n: "nextTick nowY nowM nowD nowCmp = todaysTick nowY + INTERVAL_PERIOD"
    using assms(1,2) todaysTick_le [of nowCmp] t(1)
    by (simp add: nextTick_same_day utcDay_def)
  have "nowSub < todaysTick nowY + INTERVAL_PERIOD"
    using todaysTick_next [of nowSub] t(2) by simp
  with n show ?thesis by (simp add: midnightTickerUpdate_def Let_def)
qed

text \<open>
  C8 (daily trigger). The five clock readings of one call need not fall on one UTC day,
  and \<open>Run\<close> calls the function when the midnight ticker fires. With the year, the month
  and the day read in the last three nanoseconds of 2024-03-01 and the comparison and the
  difference read in the first two of 2024-03-02, the next tick is 2024-03-02T00:00:00Z:
  it is before the reading it was compared with, not in the future, the difference is
  negative and \<^verbatim>\<open>time.NewTicker\<close> panics.
\<close>

theorem midnightTickerUpdate_across_midnight:
  "Format_stamp 1709337599999999997 = ''2024-03-01_235959''
   \<and> Format_stamp 1709337600000000001 = ''2024-03-02_000000''
   \<and> nextTick 1709337599999999997 1709337599999999998 1709337599999999999 1709337600000000001
       = 1709337600000000000
   \<and> nextTick 1709337599999999997 1709337599999999998 1709337599999999999 1709337600000000001
       < 1709337600000000001
   \<and> midnightTickerUpdate 1709337599999999997 1709337599999999998 1709337599999999999
        1709337600000000001 1709337600000000002 = Panic"
  by code_simp

section \<open>The remote key\<close>

lemma Format_date_eq: "Format_date t = dateOfDay (utcDay t)"
  by (simp add: Format_date_def dateOfDay_def utcDay_def Year_def Month_def Day_def
      split: prod.splits)

lemma Format_stamp_eq: "Format_stamp t = dateOfDay (utcDay t) @ ''_'' @ clockOfDay t"
  by (simp add: Format_stamp_def Format_date_eq clockOfDay_def)

lemma utcDay_shift: "utcDay (t + k * nsPerDay) = utcDay t + k"
  by (simp add: utcDay_def nsPerDay_def)

text \<open>
  C6 (remote key). The key of an upload is the prefix, \<open>/\<close>, the date, \<open>/\<close>, the time
  and the extension: the date is that of the UTC day before the clock reading when
  \<open>isMidnight\<close> holds and of the reading's UTC day otherwise, the time is the local
  date and time of day of the clock reading in the layout \<open>YYYY-MM-DD_HHMMSS\<close>, and
  the extension is \<open>.gz\<close> exactly when compression is enabled.
\<close>

theorem uploadPath_layout:
  "uploadPath cfg isMidnight nowT offset nowD =
     Prefix cfg @ ''/'' @ dateOfDay (if isMidnight then utcDay nowD - 1 else utcDay nowD) @ ''/''
       @ (dateOfDay (utcDay (Local offset nowT)) @ ''_'' @ clockOfDay (Local offset nowT))
       @ (if Compression cfg then ''.gz'' else [])"
proof -
  have "utcDay (AddDate nowD 0 0 (- 1)) = utcDay nowD - 1"
    using utcDay_shift [of nowD "- 1"] by (simp add: AddDate_days)
  then show ?thesis
    by (simp add: uploadPath_def Let_def Format_date_eq Format_stamp_eq)
qed

text \<open>
  The specification's example: at 2024-03-02T00:00:01Z the day-boundary upload goes
  under 2024-03-01 and any other under 2024-03-02.
\<close>

lemma uploadPath_example:
  "uploadPath exampleConfig True (nowTime healthyEnv) (zoneOffset healthyEnv) (nowDate healthyEnv)
     = ''heka/prod/2024-03-01/2024-03-02_010001.gz''
   \<and> uploadPath exampleConfig False (nowTime healthyEnv) (zoneOffset healthyEnv) (nowDate healthyEnv)
     = ''heka/prod/2024-03-02/2024-03-02_010001.gz''"
  by code_simp

section \<open>Durability over a run\<close>






text \<open>
  No upload of this plugin returns without error (\<open>Upload_never_succeeds\<close>), so the
  second hypothesis holds of every run that starts undelivered.
\<close>

lemma step_not_delivered: "\<not> delivered s \<Longrightarrow> \<not> delivered (step so op s)"
  using Upload_never_succeeds
  by (auto simp: step_def split: operation.splits prod.splits result.splits option.splits
      dest: arg_cong [where f = fst])

lemma exec_not_delivered: "\<not> delivered s \<Longrightarrow> \<not> delivered (exec so ops s)"
  by (induction ops arbitrary: s) (simp_all add: step_not_delivered)




text \<open>
  A write that fails after writing a part is outside the theorem, and the equation does
  not survive it: \<open>SaveToDisk\<close> drops the byte count of \<^verbatim>\<open>f.Write\<close> and keeps the whole
  buffer, so the next spill appends again the bytes that had reached the file. Eleven
  bytes whose spill fails after five, then a spill without fault, leave sixteen bytes in
  the spool file.
\<close>

lemma short_write_repeats_bytes:
  "exec exampleOutput
     [Append ''abcdefghijk'' (noFaults\<lparr>writeFails := Some 5\<rparr>), Spill noFaults]
     (start emptyWorld) =
   \<lparr>theWorld = \<lparr>memBuffer = [], stagingDir = True, spoolFile = Some ''abcdeabcdefghijk'',
       events = [SaveToDiskCall 11,
         LogMessage ''Creating buffer file: /var/spool/heka/logsheka_prod'',
         SaveToDiskCall 11]\<rparr>,
     accepted = [''abcdefghijk''], delivered = False, panicked = False\<rparr>"
  by code_simp

section \<open>Upload: put and removal\<close>

lemma SaveToDisk_keeps_file:
  "spoolFile w \<noteq> None \<Longrightarrow> spoolFile (snd (SaveToDisk so f w)) \<noteq> None"
  by (cases "spoolFile w"; cases "writeFails f";
      simp add: SaveToDisk_def emit_def Let_def)

lemma Upload_keeps_file:
  "spoolFile w \<noteq> None \<Longrightarrow> spoolFile (snd (Upload so m env w)) \<noteq> None"
  unfolding Upload_cases using SaveToDisk_keeps_file [of w so "diskFaults env"]
  by (simp add: ReadFromDisk_world)

text \<open>
  C2 (removal on success). Three buffered bytes, no spool file yet, and an environment in
  which every call succeeds and the remote store would accept the put: \<open>Upload\<close> spills
  the bytes, panics in its read step and leaves the spool file in place; the put is not
  sent and \<^verbatim>\<open>os.Remove\<close> is not called. By \<open>Upload_never_succeeds\<close> no upload returns
  without error, and by \<open>Upload_keeps_file\<close> none deletes a spool file, whatever the
  remote store would answer.
\<close>

theorem Upload_never_deletes:
  "Upload exampleOutput False healthyEnv (emptyWorld\<lparr>memBuffer := ''abc''\<rparr>)
     = (Panic,
        \<lparr>memBuffer = [], stagingDir = True, spoolFile = Some ''abc'',
         events = [SaveToDiskCall 3,
           LogMessage ''Creating buffer file: /var/spool/heka/logsheka_prod'',
           LogMessage ''Reading and compressing buffer file.'']\<rparr>)"
  by code_simp

section \<open>The nil buffer of ReadFromDisk\<close>

text \<open>
  C10 (the read's destination buffer). With the spool file present and \<^verbatim>\<open>os.Open\<close>
  succeeding, \<open>ReadFromDisk\<close> writes through its nil result \<open>buffer\<close> and panics, with
  compression and without; by \<open>ReadFromDisk_result\<close> it does so on every such input.
\<close>

theorem ReadFromDisk_nil_buffer:
  "ReadFromDisk exampleOutput (readEnv healthyEnv) spooledWorld
     = (Panic, spooledWorld\<lparr>events := [LogMessage ''Reading and compressing buffer file.'']\<rparr>)
   \<and> ReadFromDisk plainOutput (readEnv healthyEnv) spooledWorld
     = (Panic, spooledWorld\<lparr>events := [LogMessage ''Reading buffer file.'']\<rparr>)"
  by code_simp

text \<open>
  C7 (compression toggle). An upload of a spool file of three bytes in an environment
  without fault panics in its read step, without compression and with it: nothing is put
  to the bucket. By \<open>Upload_cases\<close> no upload ever reaches the put.
\<close>

theorem Upload_never_puts:
  "Upload plainOutput False healthyEnv spooledWorld
     = (Panic, spooledWorld\<lparr>events := [SaveToDiskCall 0, LogMessage ''Reading buffer file.'']\<rparr>)
   \<and> Upload exampleOutput False healthyEnv spooledWorld
     = (Panic, spooledWorld\<lparr>events :=
         [SaveToDiskCall 0, LogMessage ''Reading and compressing buffer file.'']\<rparr>)"
  by code_simp

section \<open>The spool path\<close>

lemma Split_not_Nil: "Split s sep \<noteq> []"
  by (induction s) (auto split: list.splits)

lemma Join_Cons_head: "Join ((c # p) # ps) sep = c # Join (p # ps) sep"
  by (cases ps) simp_all

lemma Join_Nil_head: "ps \<noteq> [] \<Longrightarrow> Join ([] # ps) sep = sep @ Join ps sep"
  by (cases ps) simp_all

lemma Join_Split: "Join (Split s (CHR ''/'')) ''_'' = sanitize s"
proof (induction s)
  case Nil
  show ?case by (simp add: sanitize_def)
next
  case (Cons c cs)
  obtain p ps where sp: "Split cs (CHR ''/'') = p # ps"
    using Split_not_Nil [of cs "CHR ''/''"] by (cases "Split cs (CHR ''/'')") auto
  show ?case
  proof (cases "c = CHR ''/''")
    case True
    then have "Join (Split (c # cs) (CHR ''/'')) ''_'' = ''_'' @ Join (Split cs (CHR ''/'')) ''_''"
      by (simp add: Join_Nil_head Split_not_Nil)
    with True Cons.IH show ?thesis by (simp add: sanitize_def)
  next
    case False
    then have "Join (Split (c # cs) (CHR ''/'')) ''_'' = c # Join (Split cs (CHR ''/'')) ''_''"
      by (simp add: sp Join_Cons_head)
    with False Cons.IH show ?thesis by (simp add: sanitize_def)
  qed
qed

lemma spoolPath_eq: "spoolPath cfg = BufferPath cfg @ ''/'' @ Bucket cfg @ sanitize (Prefix cfg)"
  by (simp add: spoolPath_def Let_def Join_Split)

lemma sanitize_inj:
  "CHR ''_'' \<notin> set s \<Longrightarrow> CHR ''_'' \<notin> set t \<Longrightarrow> sanitize s = sanitize t \<Longrightarrow> s = t"
proof (induction s arbitrary: t)
  case Nil
  then show ?case by (simp add: sanitize_def)
next
  case (Cons c cs)
  then obtain d ds where t: "t = d # ds" by (cases t) (auto simp: sanitize_def)
  from Cons.prems have "sanitize cs = sanitize ds" and hd: "(if c = CHR ''/'' then CHR ''_'' else c) = (if d = CHR ''/'' then CHR ''_'' else d)"
    by (simp_all add: t sanitize_def)
  moreover from Cons.prems have "CHR ''_'' \<notin> set cs" "CHR ''_'' \<notin> set ds" "c \<noteq> CHR ''_''" "d \<noteq> CHR ''_''"
    by (auto simp: t)
  ultimately have "cs = ds" and "c = d" using Cons.IH [of ds] by (simp_all split: if_splits)
  then show ?case by (simp add: t)
qed

text \<open>
  C9 (spool path), as amended: \<open>Init\<close> sets the spool file's path to \<open>BufferPath\<close>,
  \<open>/\<close>, the bucket, and the prefix with every \<open>/\<close> replaced by \<open>_\<close>. Two
  configurations with the same staging root and the same bucket whose prefixes contain no
  \<open>_\<close> get the same path only if their prefixes are equal.
\<close>

theorem Init_spool_path:
  "Init getAuthFails regions cfg = Inr so \<Longrightarrow>
     bufferFilePath so = BufferPath cfg @ ''/'' @ Bucket cfg @ sanitize (Prefix cfg)
     \<and> (Init getAuthFails' regions' cfg' = Inr so' \<and> BufferPath cfg' = BufferPath cfg
          \<and> Bucket cfg' = Bucket cfg
          \<and> CHR ''_'' \<notin> set (Prefix cfg) \<and> CHR ''_'' \<notin> set (Prefix cfg')
          \<and> bufferFilePath so' = bufferFilePath so \<longrightarrow> Prefix cfg' = Prefix cfg)"
proof -
  assume i: "Init getAuthFails regions cfg = Inr so"
  then have p: "bufferFilePath so = spoolPath cfg"
    by (auto simp: Init_def split: if_splits)
  have "Prefix cfg' = Prefix cfg"
    if "Init getAuthFails' regions' cfg' = Inr so'" "BufferPath cfg' = BufferPath cfg"
      "Bucket cfg' = Bucket cfg" "CHR ''_'' \<notin> set (Prefix cfg)" "CHR ''_'' \<notin> set (Prefix cfg')"
      "bufferFilePath so' = bufferFilePath so"
  proof -
    from that(1) have "bufferFilePath so' = spoolPath cfg'"
      by (auto simp: Init_def split: if_splits)
    with that(2,3,6) p have "sanitize (Prefix cfg') = sanitize (Prefix cfg)"
      by (simp add: spoolPath_eq)
    with that(4,5) show ?thesis using sanitize_inj [of "Prefix cfg'" "Prefix cfg"] by simp
  qed
  with p show ?thesis by (simp add: spoolPath_eq)
qed

text \<open>The theorem on the example configuration and one with the prefix \<open>heka/test\<close>.\<close>

theorem Init_spool_path_witness:
  "Init False [''us-east-1''] exampleConfig = Inr exampleOutput
   \<and> bufferFilePath exampleOutput = ''/var/spool/heka/logsheka_prod''
   \<and> bufferFilePath \<lparr>config = exampleConfig\<lparr>Prefix := ''heka/test''\<rparr>,
        bufferFilePath = spoolPath (exampleConfig\<lparr>Prefix := ''heka/test''\<rparr>)\<rparr>
     \<noteq> bufferFilePath exampleOutput"
proof -
  let ?cfg' = "exampleConfig\<lparr>Prefix := ''heka/test''\<rparr>"
  let ?so' = "\<lparr>config = ?cfg', bufferFilePath = spoolPath ?cfg'\<rparr>"
  have i: "Init False [''us-east-1''] exampleConfig = Inr exampleOutput"
    by (simp add: Init_def exampleOutput_def exampleConfig_def)
  have i': "Init False [''us-east-1''] ?cfg' = Inr ?so'"
    by (simp add: Init_def exampleConfig_def)
  have c: "BufferPath ?cfg' = BufferPath exampleConfig" "Bucket ?cfg' = Bucket exampleConfig"
    "CHR ''_'' \<notin> set (Prefix exampleConfig)" "CHR ''_'' \<notin> set (Prefix ?cfg')"
    "Prefix ?cfg' \<noteq> Prefix exampleConfig"
    by (simp_all add: exampleConfig_def)
  note t = Init_spool_path [OF i, of False "[''us-east-1'']" ?cfg' ?so']
  from t have "bufferFilePath exampleOutput = ''/var/spool/heka/logsheka_prod''"
    by (simp add: exampleConfig_def sanitize_def)
  moreover from t i' c have "bufferFilePath ?so' \<noteq> bufferFilePath exampleOutput"
    by blast
  ultimately show ?thesis using i by blast
qed

text \<open>
  The derivation is not injective over bucket and prefix: the prefixes \<open>heka/prod\<close> and
  \<open>heka_prod\<close> of one bucket get the same spool file.
\<close>

theorem spool_path_collision_counterexample:
  "Init False [''us-east-1''] exampleConfig
     = Inr \<lparr>config = exampleConfig, bufferFilePath = ''/var/spool/heka/logsheka_prod''\<rparr>
   \<and> Init False [''us-east-1''] (exampleConfig\<lparr>Prefix := ''heka_prod''\<rparr>)
     = Inr \<lparr>config = exampleConfig\<lparr>Prefix := ''heka_prod''\<rparr>,
            bufferFilePath = ''/var/spool/heka/logsheka_prod''\<rparr>
   \<and> BufferPath (exampleConfig\<lparr>Prefix := ''heka_prod''\<rparr>) = BufferPath exampleConfig
   \<and> (Bucket (exampleConfig\<lparr>Prefix := ''heka_prod''\<rparr>), Prefix (exampleConfig\<lparr>Prefix := ''heka_prod''\<rparr>))
     \<noteq> (Bucket exampleConfig, Prefix exampleConfig)"
  by (simp add: Init_def exampleConfig_def spoolPath_eq sanitize_def)

end

